theory Spec2Isabelle
  imports Complex_Main "HOL-Library.Sublist"
begin

section \<open>Text\<close>

text \<open>
  Python text is modelled as \<^typ>\<open>string\<close>, the bytes of its UTF-8 encoding.  The
  source uses text only through concatenation, equality, \<open>str.join\<close>, \<open>str.upper\<close> and
  repetition.  A line break, the apostrophe and the en dash of the instruction texts
  are written by their codes.
\<close>

abbreviation NL :: string where
  "NL \<equiv> [CHR 0x0A]"

abbreviation APOS :: string where
  "APOS \<equiv> [CHR 0x27]"

abbreviation EN_DASH :: string where
  "EN_DASH \<equiv> [CHR 0xE2, CHR 0x80, CHR 0x93]"

text \<open>\<open>"=" * 80\<close>\<close>

definition rule80 :: string where
  "rule80 = replicate 80 (CHR ''='')"

text \<open>
  \<open>str.upper\<close>, on ASCII letters.  Every other byte is kept; Python's case mapping of
  letters beyond ASCII is not modelled.
\<close>

definition upper_char :: "char \<Rightarrow> char" where
  "upper_char c =
     (if (97::nat) \<le> of_char c \<and> of_char c \<le> (122::nat)
      then char_of (of_char c - (32::nat)) else c)"

definition upper :: "string \<Rightarrow> string" where
  "upper s = map upper_char s"

text \<open>\<open>sep.join(xs)\<close>\<close>

fun join :: "string \<Rightarrow> string list \<Rightarrow> string" where
  "join sep [] = []"
| "join sep [x] = x"
| "join sep (x # y # ys) = x @ sep @ join sep (y # ys)"

text \<open>
  A \<open>dict\<close> with text keys, in insertion order.  \<open>d[k] = v\<close> replaces the value of a
  key that is present, where it stands, and appends a new key at the end.
\<close>

type_synonym pydict = "(string \<times> string) list"

fun dict_set :: "string \<Rightarrow> string \<Rightarrow> pydict \<Rightarrow> pydict" where
  "dict_set k v [] = [(k, v)]"
| "dict_set k v ((k', v') # d) =
     (if k' = k then (k, v) # d else (k', v') # dict_set k v d)"

section \<open>config.py\<close>

text \<open>
  The values read from the environment when \<open>config.py\<close> is imported.
  \<open>os.getenv("GROQ_API_KEY")\<close> is \<open>None\<close> when the variable is unset.  A float is
  only ever passed on, never computed with, and is modelled as a real number.
\<close>

record config =
  GROQ_API_KEY :: "string option"
  GROQ_MODEL :: string
  AGENT_TEMPERATURE_DEFAULT :: real
  AGENT_MAX_TOKENS :: int
  VERBOSE :: bool

definition GROQ_API_BASE :: string where
  "GROQ_API_BASE = ''https://api.groq.com/openai/v1''"

text \<open>
  An agent configuration is a \<open>dict\<close> with the keys \<open>name\<close>, \<open>role\<close>, \<open>temperature\<close>
  and \<open>instructions\<close>; a field is \<open>None\<close> when the key is absent.
\<close>

record agent_cfg =
  agent_name :: "string option"
  role :: "string option"
  temperature :: "real option"
  instructions :: "string option"

definition LITERATURE_AGENT :: "config \<Rightarrow> agent_cfg" where
  "LITERATURE_AGENT cfg =
     \<lparr>agent_name = Some ''LiteratureReviewer'',
      role = Some ''Literature Review Specialist'',
      temperature = Some (AGENT_TEMPERATURE_DEFAULT cfg),
      instructions = Some
        (''You conduct a concise but insightful literature review. '' @
         ''You summarize key themes, representative papers, and open questions, '' @
         ''highlighting where the field currently stands.'')\<rparr>"

definition GAP_AGENT :: "config \<Rightarrow> agent_cfg" where
  "GAP_AGENT cfg =
     \<lparr>agent_name = Some ''GapAnalyst'',
      role = Some ''Research Gap Analyst'',
      temperature = Some (AGENT_TEMPERATURE_DEFAULT cfg),
      instructions = Some
        (''You read the literature summary and identify gaps, tensions, and '' @
         ''promising research directions. You propose 2'' @ EN_DASH @ ''3 concrete research '' @
         ''questions or hypotheses that a new paper could address.'')\<rparr>"

definition OUTLINE_AGENT :: "config \<Rightarrow> agent_cfg" where
  "OUTLINE_AGENT cfg =
     \<lparr>agent_name = Some ''OutlineDesigner'',
      role = Some ''Research Paper Outline Designer'',
      temperature = Some (AGENT_TEMPERATURE_DEFAULT cfg),
      instructions = Some
        (''You turn a research idea into a well-structured paper outline. '' @
         ''You define sections (e.g., Introduction, Related Work, Method, '' @
         ''Experiments, Discussion, Conclusion) and list bullet points for '' @
         ''what each section should cover.'')\<rparr>"

definition REVIEW_AGENT :: "config \<Rightarrow> agent_cfg" where
  "REVIEW_AGENT cfg =
     \<lparr>agent_name = Some ''OutlineReviewer'',
      role = Some ''Critical Research Mentor'',
      temperature = Some (AGENT_TEMPERATURE_DEFAULT cfg),
      instructions = Some
        (''You critically review the proposed outline, checking for coherence, '' @
         ''feasibility, and novelty. You suggest improvements and highlight '' @
         ''any missing sections or clarifications needed.'')\<rparr>"

record WorkflowPhase =
  name :: string
  description :: string
  agent_config :: agent_cfg

definition WORKFLOW_PHASES :: "config \<Rightarrow> WorkflowPhase list" where
  "WORKFLOW_PHASES cfg =
     [\<lparr>name = ''literature'',
       description = ''Literature review on the topic'',
       agent_config = LITERATURE_AGENT cfg\<rparr>,
      \<lparr>name = ''gaps'',
       description = ''Analyze research gaps and propose questions'',
       agent_config = GAP_AGENT cfg\<rparr>,
      \<lparr>name = ''outline'',
       description = ''Design structured paper outline'',
       agent_config = OUTLINE_AGENT cfg\<rparr>,
      \<lparr>name = ''review'',
       description = ''Critically review and refine the outline'',
       agent_config = REVIEW_AGENT cfg\<rparr>]"

section \<open>The world outside the program\<close>

datatype error =
  RuntimeError string
| KeyError string
| ClientError string

text \<open>One entry of the \<open>messages\<close> list of a chat-completion request.\<close>

record message =
  msg_role :: string
  msg_content :: string

text \<open>The keyword arguments of \<open>client.chat.completions.create\<close>.\<close>

record request =
  req_model :: string
  req_temperature :: "real option"
  req_max_tokens :: int
  req_messages :: "message list"

text \<open>
  The completion endpoint is a black box: from the requests it has already received
  and the present one it either raises (\<open>Inl\<close>) or answers with the text that the
  program reads as \<open>response.choices[0].message.content\<close>.
\<close>

type_synonym endpoint = "request list \<Rightarrow> request \<Rightarrow> error + string"

text \<open>
  The objects of the external agent framework, by the keyword arguments the program
  builds them with.
\<close>

record Agent =
  crew_role :: string
  goal :: string
  backstory :: string
  verbose :: bool
  allow_delegation :: bool

record Task =
  task_description :: string
  agent :: Agent
  expected_output :: string

record Crew =
  agents :: "Agent list"
  tasks :: "Task list"
  crew_verbose :: bool
  process :: string

text \<open>
  \<open>crew.kickoff(inputs=...)\<close> is a black box as well: it raises or returns a result, of
  which the program uses the text \<open>str(result)\<close>.
\<close>

type_synonym kickoff = "Crew \<Rightarrow> pydict \<Rightarrow> error + string"

text \<open>
  What a run can change: the requests sent to the endpoint, the crews started, the
  process environment \<open>os.environ\<close>, the texts given to \<open>print\<close>, and the files
  written (by path below the project root).
\<close>

record world =
  calls :: "request list"
  kickoffs :: "(Crew \<times> pydict) list"
  environ :: "string \<rightharpoonup> string"
  console :: "string list"
  files :: "string \<rightharpoonup> string"

definition print :: "string \<Rightarrow> world \<Rightarrow> world" where
  "print s w = w\<lparr>console := console w @ [s]\<rparr>"

section \<open>autogen\_simple\_demo.py\<close>

definition TOPIC :: string where
  "TOPIC = ''How multi-agent AI systems can support human decision-making''"

text \<open>The fields of a \<open>ResearchPaperWorkflow\<close> object; \<open>client\<close> holds the key it was built with.\<close>

record workflow =
  client :: string
  model :: string
  outputs :: pydict

text \<open>\<open>ResearchPaperWorkflow.__init__\<close>: \<open>not GROQ_API_KEY\<close> holds for \<open>None\<close> and for the empty text.\<close>

definition init :: "config \<Rightarrow> string \<Rightarrow> error + workflow" where
  "init cfg m =
     (case GROQ_API_KEY cfg of
        None \<Rightarrow> Inl (RuntimeError ''GROQ_API_KEY is not set in .env.'')
      | Some k \<Rightarrow>
          if k = [] then Inl (RuntimeError ''GROQ_API_KEY is not set in .env.'')
          else Inr \<lparr>client = k, model = m, outputs = []\<rparr>)"

text \<open>Lines 42 to 46: \<open>agent_cfg['role']\<close> raises \<open>KeyError\<close> when the key is absent.\<close>

definition system_prompt :: "agent_cfg \<Rightarrow> error + string" where
  "system_prompt ag =
     (case role ag of
        None \<Rightarrow> Inl (KeyError ''role'')
      | Some r \<Rightarrow>
          Inr (''You are a '' @ r @ ''.'' @ NL @ NL @
               (case instructions ag of None \<Rightarrow> [] | Some i \<Rightarrow> i) @ NL @ NL @
               ''The paper topic is: '' @ APOS @ TOPIC @ APOS @ ''.''))"

text \<open>Lines 49 to 52.\<close>

definition context_chunk :: "string \<times> string \<Rightarrow> string" where
  "context_chunk e = ''['' @ upper (fst e) @ '' OUTPUT]'' @ NL @ snd e @ NL"

definition context_text :: "pydict \<Rightarrow> string" where
  "context_text d =
     (if map context_chunk d = [] then ''No prior context yet.''
      else join NL (map context_chunk d))"

text \<open>Lines 54 to 77.\<close>

definition fallback_message :: string where
  "fallback_message = ''Summarize the context above in a helpful way.''"

definition user_message :: "string \<Rightarrow> string" where
  "user_message phase_name =
     (if phase_name = ''literature'' then
        ''Write a concise literature review for this topic. '' @
        ''Mention 3'' @ EN_DASH @ ''5 key themes or directions and typical methods used.''
      else if phase_name = ''gaps'' then
        ''Based on the literature review, identify gaps or open problems. '' @
        ''Propose 2'' @ EN_DASH @ ''3 concrete research questions or hypotheses that a new paper could address.''
      else if phase_name = ''outline'' then
        ''Design a detailed outline for a full research paper on this topic, '' @
        ''grounded in the research questions above. Use standard sections '' @
        ''(Introduction, Related Work, Method, Experiments, Results/Discussion, Conclusion) '' @
        ''with bullet points under each.''
      else if phase_name = ''review'' then
        ''Critically review the proposed outline. Point out strengths, weaknesses, '' @
        ''and any missing parts. Then provide an improved, final outline.''
      else fallback_message)"

text \<open>Lines 83 to 91: the request that \<open>run_phase\<close> sends.\<close>

definition completion_request ::
  "config \<Rightarrow> workflow \<Rightarrow> agent_cfg \<Rightarrow> string \<Rightarrow> string \<Rightarrow> request" where
  "completion_request cfg self ag sp um =
     \<lparr>req_model = model self,
      req_temperature = temperature ag,
      req_max_tokens = AGENT_MAX_TOKENS cfg,
      req_messages =
        [\<lparr>msg_role = ''system'', msg_content = sp\<rparr>,
         \<lparr>msg_role = ''user'', msg_content = um\<rparr>]\<rparr>"

text \<open>
  \<open>ResearchPaperWorkflow.run_phase\<close>.  The result is the raised exception or the object
  after the phase, together with the world as the phase leaves it.
\<close>

definition run_phase ::
  "config \<Rightarrow> endpoint \<Rightarrow> string \<Rightarrow> string \<Rightarrow> agent_cfg \<Rightarrow> workflow \<Rightarrow> world
     \<Rightarrow> (error + workflow) \<times> world" where
  "run_phase cfg ep phase_name descr ag self w =
     (let w1 = print (NL @ rule80) w;
          w2 = print (''PHASE: '' @ upper descr @ '' ('' @ phase_name @ '')'') w1;
          w3 = print rule80 w2
      in case system_prompt ag of
           Inl e \<Rightarrow> (Inl e, w3)
         | Inr sp \<Rightarrow>
             let ctx = context_text (outputs self);
                 um = user_message phase_name;
                 w4 = (if VERBOSE cfg
                       then print ctx (print (NL @ ''[Context passed to agent]'' @ NL) w3)
                       else w3);
                 req = completion_request cfg self ag sp um;
                 w5 = w4\<lparr>calls := calls w4 @ [req]\<rparr>
             in (case ep (calls w4) req of
                   Inl e \<Rightarrow> (Inl e, w5)
                 | Inr content \<Rightarrow>
                     (Inr (self\<lparr>outputs := dict_set phase_name content (outputs self)\<rparr>),
                      print content (print (NL @ ''[Agent output]'' @ NL) w5))))"

text \<open>Lines 107 to 112: the loop over the phases, left by the first exception.\<close>

fun for_phases ::
  "config \<Rightarrow> endpoint \<Rightarrow> WorkflowPhase list \<Rightarrow> workflow \<Rightarrow> world
     \<Rightarrow> (error + workflow) \<times> world" where
  "for_phases cfg ep [] self w = (Inr self, w)"
| "for_phases cfg ep (p # ps) self w =
     (case run_phase cfg ep (name p) (description p) (agent_config p) self w of
        (Inl e, w') \<Rightarrow> (Inl e, w')
      | (Inr self', w') \<Rightarrow> for_phases cfg ep ps self' w')"

text \<open>Lines 123 to 132: the texts given to \<open>f.write\<close>, in order.\<close>

definition report_header :: "workflow \<Rightarrow> string list" where
  "report_header self =
     [''AutoGen Exercise 4 - Research Paper Outline'' @ NL,
      rule80 @ NL,
      ''Topic: '' @ TOPIC @ NL,
      ''Model: '' @ model self @ NL @ NL]"

definition report_section :: "string \<times> string \<Rightarrow> string list" where
  "report_section e = [''--- PHASE: '' @ fst e @ '' ---'' @ NL, snd e, NL @ NL]"

definition report_writes :: "workflow \<Rightarrow> string list" where
  "report_writes self = report_header self @ concat (map report_section (outputs self))"

definition out_path :: string where
  "out_path = ''autogen_ex4.txt''"

text \<open>
  \<open>ResearchPaperWorkflow.run\<close>.  The file is opened for writing, which empties it, and
  holds the written texts one after the other.
\<close>

definition run :: "config \<Rightarrow> endpoint \<Rightarrow> workflow \<Rightarrow> world \<Rightarrow> (error + workflow) \<times> world" where
  "run cfg ep self w =
     (let w1 = print rule80 w;
          w2 = print ''AUTOGEN RESEARCH PAPER OUTLINE WORKFLOW (GROQ)'' w1;
          w3 = print rule80 w2;
          w4 = print (''Model: '' @ model self) w3;
          w5 = print (''Paper topic: '' @ TOPIC) w4;
          w6 = print rule80 w5
      in case for_phases cfg ep (WORKFLOW_PHASES cfg) self w6 of
           (Inl e, w') \<Rightarrow> (Inl e, w')
         | (Inr self', w') \<Rightarrow>
             let w7 = print (NL @ rule80) w';
                 w8 = print ''WORKFLOW COMPLETE'' w7;
                 w9 = print rule80 w8;
                 w10 = print (''Final outline (reviewed) is in the '' @ APOS @ ''review'' @ APOS @
                              '' phase output.'') w9;
                 w11 = w10\<lparr>files := (files w10)(out_path \<mapsto> concat (report_writes self'))\<rparr>
             in (Inr self', print (NL @ ''Saved full workflow output to: '' @ out_path) w11))"

text \<open>
  The script body: build the workflow with the default model, then run it.  The
  command line \<open>argv\<close> of the process is not read.
\<close>

definition autogen_main ::
  "config \<Rightarrow> endpoint \<Rightarrow> string list \<Rightarrow> world \<Rightarrow> (error + workflow) \<times> world" where
  "autogen_main cfg ep argv w =
     (case init cfg (GROQ_MODEL cfg) of
        Inl e \<Rightarrow> (Inl e, w)
      | Inr self \<Rightarrow> run cfg ep self w)"

section \<open>crewai\_demo.py\<close>

text \<open>The source file holds these bytes where an en dash was meant.\<close>

abbreviation DASH_BYTES :: string where
  "DASH_BYTES \<equiv> [CHR 0xC3, CHR 0xA2, CHR 0xE2, CHR 0x82, CHR 0xAC, CHR 0xE2, CHR 0x80, CHR 0x9C]"

definition create_program_chair_agent :: "config \<Rightarrow> string \<Rightarrow> Agent" where
  "create_program_chair_agent cfg conference_theme =
     \<lparr>crew_role = ''Program Chair'',
      goal = ''Define clear goals, target audience, and high-level tracks for a '' @
             ''3-day conference on '' @ APOS @ conference_theme @ APOS @ ''.'',
      backstory = ''You have chaired multiple academic and industry conferences. '' @
                  ''You are skilled at clarifying who the conference is for, what '' @
                  ''its objectives are, and how to structure tracks that align with '' @
                  ''those goals.'',
      verbose = VERBOSE cfg,
      allow_delegation = False\<rparr>"

definition create_track_designer_agent :: "config \<Rightarrow> string \<Rightarrow> Agent" where
  "create_track_designer_agent cfg conference_theme =
     \<lparr>crew_role = ''Track & Session Designer'',
      goal = ''Design coherent session themes and talk ideas that fit the tracks '' @
             ''for a 3-day '' @ APOS @ conference_theme @ APOS @ '' conference.'',
      backstory = ''You specialize in turning broad tracks into concrete sessions. '' @
                  ''You ensure each session has a clear focus, a mix of perspectives, '' @
                  ''and a logical flow for attendees.'',
      verbose = VERBOSE cfg,
      allow_delegation = False\<rparr>"

definition create_schedule_planner_agent :: "config \<Rightarrow> Agent" where
  "create_schedule_planner_agent cfg =
     \<lparr>crew_role = ''Schedule Planner'',
      goal = ''Arrange sessions into a practical 3-day timetable, balancing keynotes, '' @
             ''talks, breaks, and networking slots.'',
      backstory = ''You are experienced in agenda planning. You avoid overloading any day, '' @
                  ''make sure breaks are reasonable, and space popular sessions to avoid conflicts.'',
      verbose = VERBOSE cfg,
      allow_delegation = False\<rparr>"

definition create_logistics_agent :: "config \<Rightarrow> Agent" where
  "create_logistics_agent cfg =
     \<lparr>crew_role = ''Logistics & Risk Reviewer'',
      goal = ''Review the proposed agenda for conflicts and logistical issues, and '' @
             ''suggest improvements.'',
      backstory = ''You think like an operations manager. You spot problems such as '' @
                  ''double-booked rooms, back-to-back intense sessions, or accessibility '' @
                  ''issues, and propose practical fixes.'',
      verbose = VERBOSE cfg,
      allow_delegation = False\<rparr>"

definition create_program_task :: "Agent \<Rightarrow> string \<Rightarrow> Task" where
  "create_program_task program_chair conference_theme =
     \<lparr>task_description =
        ''Define the high-level structure of a 3-day conference on '' @
        APOS @ conference_theme @ APOS @ ''. '' @
        ''Clarify the primary audience, main goals, and propose 3'' @ DASH_BYTES @ ''4 tracks '' @
        ''(e.g., technical, applications, ethics, workshops).'',
      agent = program_chair,
      expected_output =
        ''A short document with: (1) conference goals, (2) target audience, '' @
        ''(3) 3'' @ DASH_BYTES @ ''4 named tracks with 1'' @ DASH_BYTES @
        ''2 sentences describing each.''\<rparr>"

definition create_track_task :: "Agent \<Rightarrow> Task" where
  "create_track_task track_designer =
     \<lparr>task_description =
        ''Based on the defined tracks and goals, design 6'' @ DASH_BYTES @ ''8 sessions per day '' @
        ''for a 3-day conference. For each session, provide a title, 2'' @ DASH_BYTES @ ''3 bullet '' @
        ''points on content, and which track it belongs to.'',
      agent = track_designer,
      expected_output =
        ''A list of proposed sessions grouped by track, with titles and brief descriptions.''\<rparr>"

definition create_schedule_task :: "Agent \<Rightarrow> Task" where
  "create_schedule_task schedule_planner =
     \<lparr>task_description =
        ''Convert the proposed sessions into a concrete 3-day agenda. '' @
        ''Assume each day runs roughly 9:00'' @ DASH_BYTES @ ''17:30 with a keynote, '' @
        ''two morning sessions, lunch, two afternoon sessions, and an optional '' @
        ''evening event. Assign sessions to time slots and mention where parallel '' @
        ''tracks exist.'',
      agent = schedule_planner,
      expected_output =
        ''A day-by-day agenda (Day 1, Day 2, Day 3) with time slots, session titles, '' @
        ''and indications of parallel tracks when applicable.''\<rparr>"

definition create_logistics_task :: "Agent \<Rightarrow> Task" where
  "create_logistics_task logistics_agent =
     \<lparr>task_description =
        ''Review the 3-day agenda for issues such as too many parallel sessions, '' @
        ''insufficient breaks, or clustering similar content. Suggest concrete '' @
        ''improvements and provide a final, adjusted agenda.'',
      agent = logistics_agent,
      expected_output =
        ''A short critique of the agenda highlighting problems, followed by '' @
        ''an improved agenda layout.''\<rparr>"

text \<open>Lines 184 to 202: the crew that \<open>main\<close> forms for a theme.\<close>

definition form_crew :: "config \<Rightarrow> string \<Rightarrow> Crew" where
  "form_crew cfg conference_theme =
     (let program_chair = create_program_chair_agent cfg conference_theme;
          track_designer = create_track_designer_agent cfg conference_theme;
          schedule_planner = create_schedule_planner_agent cfg;
          logistics_agent = create_logistics_agent cfg;
          program_task = create_program_task program_chair conference_theme;
          track_task = create_track_task track_designer;
          schedule_task = create_schedule_task schedule_planner;
          logistics_task = create_logistics_task logistics_agent
      in \<lparr>agents = [program_chair, track_designer, schedule_planner, logistics_agent],
          tasks = [program_task, track_task, schedule_task, logistics_task],
          crew_verbose = VERBOSE cfg,
          process = ''sequential''\<rparr>)"

text \<open>Lines 216 to 222: the texts given to \<open>f.write\<close>; \<open>now\<close> is the text of \<open>datetime.now()\<close>.\<close>

definition agenda_writes :: "config \<Rightarrow> string \<Rightarrow> string \<Rightarrow> string \<Rightarrow> string list" where
  "agenda_writes cfg now conference_theme result =
     [''CrewAI Exercise 4 - 3-Day Conference Agenda'' @ NL,
      rule80 @ NL,
      ''Conference Theme: '' @ conference_theme @ NL,
      ''Model (Groq): '' @ GROQ_MODEL cfg @ NL,
      ''Generated at: '' @ now @ NL @ NL,
      result]"

definition agenda_path :: string where
  "agenda_path = ''crewai_demo_ex4.txt''"

text \<open>\<open>main(conference_theme)\<close>\<close>

definition main ::
  "config \<Rightarrow> kickoff \<Rightarrow> string \<Rightarrow> string \<Rightarrow> world \<Rightarrow> (error + unit) \<times> world" where
  "main cfg ko now conference_theme w =
     (let w1 = print rule80 w;
          w2 = print ''CrewAI Multi-Agent Conference Agenda Planner (Groq)'' w1;
          w3 = print rule80 w2;
          w4 = print (''Conference Theme: '' @ conference_theme) w3;
          w5 = print (''Duration: 3 days'' @ NL) w4
      in case GROQ_API_KEY cfg of
           None \<Rightarrow> (Inl (RuntimeError ''GROQ_API_KEY is not set in .env.''), w5)
         | Some k \<Rightarrow>
             if k = [] then (Inl (RuntimeError ''GROQ_API_KEY is not set in .env.''), w5)
             else
               let w6 = w5\<lparr>environ := (environ w5)
                          (''OPENAI_API_KEY'' \<mapsto> k,
                           ''OPENAI_API_BASE'' \<mapsto> GROQ_API_BASE,
                           ''OPENAI_MODEL_NAME'' \<mapsto> GROQ_MODEL cfg)\<rparr>;
                   crew = form_crew cfg conference_theme;
                   w7 = print (''Forming the Conference Planning Crew...'' @ NL) w6;
                   w8 = print (''Starting Crew execution...'' @ NL) w7;
                   inputs = [(''conference_theme'', conference_theme)];
                   w9 = w8\<lparr>kickoffs := kickoffs w8 @ [(crew, inputs)]\<rparr>
               in (case ko crew inputs of
                     Inl e \<Rightarrow> (Inl e, w9)
                   | Inr result \<Rightarrow>
                       let w10 = print (NL @ rule80) w9;
                           w11 = print ''FINAL 3-DAY CONFERENCE AGENDA (SUMMARY)'' w10;
                           w12 = print rule80 w11;
                           w13 = print result w12;
                           w14 = w13\<lparr>files := (files w13)
                                   (agenda_path \<mapsto>
                                      concat (agenda_writes cfg now conference_theme result))\<rparr>
                       in (Inr (),
                           print (NL @ ''Saved conference agenda summary to: '' @ agenda_path) w14)))"


section \<open>Concrete inputs\<close>

text \<open>
  A configuration as \<open>config.py\<close> yields it with a key and the default values, the same
  without a key, a fresh world, a freshly built workflow object, an endpoint that
  answers every request with \<open>X\<close>, and an agent configuration with neither
  \<open>temperature\<close> nor \<open>instructions\<close>.
\<close>

definition cfg0 :: config where
  "cfg0 = \<lparr>GROQ_API_KEY = Some ''gsk_test'', GROQ_MODEL = ''llama-3.1-8b-instant'',
            AGENT_TEMPERATURE_DEFAULT = 7 / 10, AGENT_MAX_TOKENS = 2000, VERBOSE = True\<rparr>"

definition cfg_nokey :: config where
  "cfg_nokey = cfg0\<lparr>GROQ_API_KEY := None\<rparr>"

definition w0 :: world where
  "w0 = \<lparr>calls = [], kickoffs = [], environ = Map.empty, console = [], files = Map.empty\<rparr>"

definition self0 :: workflow where
  "self0 = \<lparr>client = ''gsk_test'', model = ''llama-3.1-8b-instant'', outputs = []\<rparr>"

definition answer_X :: endpoint where
  "answer_X hist req = Inr ''X''"

definition bare_agent :: agent_cfg where
  "bare_agent = \<lparr>agent_name = Some ''Helper'', role = Some ''Helper'', temperature = None,
                  instructions = None\<rparr>"

text \<open>An endpoint that answers the first request and raises on the second.\<close>

definition fail_second :: endpoint where
  "fail_second hist req =
     (if length hist = 1 then Inl (ClientError ''connection error'') else Inr ''X'')"


section \<open>Basic facts\<close>

lemma calls_print [simp]: "calls (print s w) = calls w"
  by (simp add: print_def)

lemma files_print [simp]: "files (print s w) = files w"
  by (simp add: print_def)

lemma kickoffs_print [simp]: "kickoffs (print s w) = kickoffs w"
  by (simp add: print_def)

lemma console_print [simp]: "console (print s w) = console w @ [s]"
  by (simp add: print_def)

lemma map_of_dict_set:
  "map_of (dict_set k v d) k' = (if k' = k then Some v else map_of d k')"
  by (induction d) auto

lemma keys_dict_set:
  "map fst (dict_set k v d) = (if k \<in> set (map fst d) then map fst d else map fst d @ [k])"
  by (induction d) (auto simp: rev_image_eqI)

text \<open>What a phase returns, which requests it has sent, and that it writes no file.\<close>

lemma run_phase_fst:
  "fst (run_phase cfg ep n d ag self w) =
     (case system_prompt ag of
        Inl e \<Rightarrow> Inl e
      | Inr sp \<Rightarrow>
          (case ep (calls w) (completion_request cfg self ag sp (user_message n)) of
             Inl e \<Rightarrow> Inl e
           | Inr c \<Rightarrow> Inr (self\<lparr>outputs := dict_set n c (outputs self)\<rparr>)))"
  by (simp add: run_phase_def Let_def split: sum.splits)

lemma run_phase_calls:
  "calls (snd (run_phase cfg ep n d ag self w)) =
     (case system_prompt ag of
        Inl e \<Rightarrow> calls w
      | Inr sp \<Rightarrow> calls w @ [completion_request cfg self ag sp (user_message n)])"
  by (simp add: run_phase_def Let_def split: sum.splits)

lemma run_phase_files: "files (snd (run_phase cfg ep n d ag self w)) = files w"
  by (simp add: run_phase_def Let_def split: sum.splits)

lemma user_message_unknown:
  "n \<noteq> ''literature'' \<Longrightarrow> n \<noteq> ''gaps'' \<Longrightarrow> n \<noteq> ''outline'' \<Longrightarrow> n \<noteq> ''review''
     \<Longrightarrow> user_message n = fallback_message"
  by (simp add: user_message_def)

text \<open>The loop over the phases, and \<open>run\<close> in terms of it.\<close>

lemma for_phases_Cons:
  "for_phases cfg ep (p # ps) self w =
     (case fst (run_phase cfg ep (name p) (description p) (agent_config p) self w) of
        Inl e \<Rightarrow> (Inl e, snd (run_phase cfg ep (name p) (description p) (agent_config p) self w))
      | Inr self' \<Rightarrow>
          for_phases cfg ep ps self'
            (snd (run_phase cfg ep (name p) (description p) (agent_config p) self w)))"
  by (simp split: prod.splits sum.splits)

declare for_phases.simps(2) [simp del]

lemma for_phases_files: "files (snd (for_phases cfg ep ps self w)) = files w"
proof (induction ps arbitrary: self w)
  case Nil
  show ?case by simp
next
  case (Cons p ps)
  show ?case
    unfolding for_phases_Cons
    by (simp add: Cons.IH run_phase_files split: sum.splits)
qed

lemma for_phases_append:
  "for_phases cfg ep (xs @ ys) self w =
     (case fst (for_phases cfg ep xs self w) of
        Inl e \<Rightarrow> (Inl e, snd (for_phases cfg ep xs self w))
      | Inr self' \<Rightarrow> for_phases cfg ep ys self' (snd (for_phases cfg ep xs self w)))"
proof (induction xs arbitrary: self w)
  case Nil
  show ?case by simp
next
  case (Cons p xs)
  show ?case
    unfolding append_Cons for_phases_Cons
    by (simp add: Cons.IH split: sum.splits)
qed

text \<open>
  The outcome of the loop and the requests it sends depend on the world only through
  the requests already sent.
\<close>

lemma for_phases_calls_only:
  "calls w = calls v \<Longrightarrow>
     fst (for_phases cfg ep ps self w) = fst (for_phases cfg ep ps self v) \<and>
     calls (snd (for_phases cfg ep ps self w)) = calls (snd (for_phases cfg ep ps self v))"
proof (induction ps arbitrary: self w v)
  case Nil
  then show ?case by simp
next
  case (Cons p ps)
  let ?rw = "run_phase cfg ep (name p) (description p) (agent_config p) self w"
  let ?rv = "run_phase cfg ep (name p) (description p) (agent_config p) self v"
  have f: "fst ?rw = fst ?rv"
    unfolding run_phase_fst Cons.prems ..
  have c: "calls (snd ?rw) = calls (snd ?rv)"
    unfolding run_phase_calls Cons.prems ..
  show ?case
  proof (cases "fst ?rv")
    case (Inl e)
    then show ?thesis unfolding for_phases_Cons f by (simp add: c)
  next
    case (Inr self')
    then show ?thesis unfolding for_phases_Cons f using Cons.IH [OF c, of self'] by simp
  qed
qed


lemma after_loop_fst:
  assumes "calls w6 = calls w"
  shows "fst (case for_phases cfg ep ps self w6 of
                (Inl e, w') \<Rightarrow> (Inl e, w')
              | (Inr self', w') \<Rightarrow> (Inr self', F self' w')) =
         fst (for_phases cfg ep ps self w)"
proof -
  have "fst (for_phases cfg ep ps self w6) = fst (for_phases cfg ep ps self w)"
    using for_phases_calls_only [OF assms] by blast
  then show ?thesis
    by (cases "for_phases cfg ep ps self w6") (auto split: sum.splits)
qed

lemma after_loop_calls:
  assumes "calls w6 = calls w" and "\<And>s v. calls (F s v) = calls v"
  shows "calls (snd (case for_phases cfg ep ps self w6 of
                       (Inl e, w') \<Rightarrow> (Inl e, w')
                     | (Inr self', w') \<Rightarrow> (Inr self', F self' w'))) =
         calls (snd (for_phases cfg ep ps self w))"
proof -
  have "calls (snd (for_phases cfg ep ps self w6)) = calls (snd (for_phases cfg ep ps self w))"
    using for_phases_calls_only [OF assms(1)] by blast
  then show ?thesis
    by (cases "for_phases cfg ep ps self w6") (auto simp: assms(2) split: sum.splits)
qed

lemma after_loop_files:
  assumes "files w6 = files w"
    and "\<And>s v. files (F s v) = (files v)(out_path \<mapsto> concat (report_writes s))"
  shows "files (snd (case for_phases cfg ep ps self w6 of
                       (Inl e, w') \<Rightarrow> (Inl e, w')
                     | (Inr self', w') \<Rightarrow> (Inr self', F self' w'))) =
         (case fst (for_phases cfg ep ps self w6) of
            Inl e \<Rightarrow> files w
          | Inr s \<Rightarrow> (files w)(out_path \<mapsto> concat (report_writes s)))"
proof -
  have "files (snd (for_phases cfg ep ps self w6)) = files w"
    by (simp add: for_phases_files assms(1))
  then show ?thesis
    by (cases "for_phases cfg ep ps self w6") (auto simp: assms(2) split: sum.splits)
qed

lemma run_fst:
  "fst (run cfg ep self w) = fst (for_phases cfg ep (WORKFLOW_PHASES cfg) self w)"
  unfolding run_def Let_def by (rule after_loop_fst) simp

lemma run_calls:
  "calls (snd (run cfg ep self w)) = calls (snd (for_phases cfg ep (WORKFLOW_PHASES cfg) self w))"
  unfolding run_def Let_def by (rule after_loop_calls) simp_all

lemma run_files:
  "files (snd (run cfg ep self w)) =
     (case fst (run cfg ep self w) of
        Inl e \<Rightarrow> files w
      | Inr self' \<Rightarrow> (files w)(out_path \<mapsto> concat (report_writes self')))"
proof -
  have "files (snd (run cfg ep self w)) =
     (case fst (for_phases cfg ep (WORKFLOW_PHASES cfg) self
             (print rule80 (print (''Paper topic: '' @ TOPIC) (print (''Model: '' @ model self)
               (print rule80 (print ''AUTOGEN RESEARCH PAPER OUTLINE WORKFLOW (GROQ)''
                 (print rule80 w))))))) of
        Inl e \<Rightarrow> files w
      | Inr self' \<Rightarrow> (files w)(out_path \<mapsto> concat (report_writes self')))"
    unfolding run_def Let_def by (rule after_loop_files) simp_all
  moreover have "fst (for_phases cfg ep (WORKFLOW_PHASES cfg) self
             (print rule80 (print (''Paper topic: '' @ TOPIC) (print (''Model: '' @ model self)
               (print rule80 (print ''AUTOGEN RESEARCH PAPER OUTLINE WORKFLOW (GROQ)''
                 (print rule80 w))))))) = fst (run cfg ep self w)"
    unfolding run_fst by (rule conjunct1 [OF for_phases_calls_only]) simp
  ultimately show ?thesis by simp
qed

section \<open>The claims\<close>

text \<open>
  C2.  A phase identifier other than \<open>literature\<close>, \<open>gaps\<close>, \<open>outline\<close> and \<open>review\<close>
  selects the text \<open>Summarize the context above in a helpful way.\<close> as the user
  message, and the phase raises nothing on its account: it returns what the endpoint
  returns for the request carrying that text, and fails only where the agent
  configuration has no role or the endpoint itself raises.
\<close>

theorem unknown_phase_uses_fallback:
  assumes "phase_name \<noteq> ''literature''" and "phase_name \<noteq> ''gaps''"
    and "phase_name \<noteq> ''outline''" and "phase_name \<noteq> ''review''"
  shows "user_message phase_name = ''Summarize the context above in a helpful way.'' \<and>
         fst (run_phase cfg ep phase_name descr ag self w) =
           (case system_prompt ag of
              Inl e \<Rightarrow> Inl e
            | Inr sp \<Rightarrow>
                (case ep (calls w)
                        \<lparr>req_model = model self, req_temperature = temperature ag,
                         req_max_tokens = AGENT_MAX_TOKENS cfg,
                         req_messages =
                           [\<lparr>msg_role = ''system'', msg_content = sp\<rparr>,
                            \<lparr>msg_role = ''user'',
                             msg_content = ''Summarize the context above in a helpful way.''\<rparr>]\<rparr> of
                   Inl e \<Rightarrow> Inl e
                 | Inr c \<Rightarrow> Inr (self\<lparr>outputs := dict_set phase_name c (outputs self)\<rparr>)))"
proof -
  have um: "user_message phase_name = ''Summarize the context above in a helpful way.''"
    using user_message_unknown [OF assms] by (simp add: fallback_message_def)
  show ?thesis
    unfolding run_phase_fst completion_request_def um by simp
qed

theorem unknown_phase_uses_fallback_witness:
  "user_message ''summary'' = ''Summarize the context above in a helpful way.'' \<and>
   fst (run_phase cfg0 answer_X ''summary'' ''Summary'' (GAP_AGENT cfg0) self0 w0) =
     Inr (self0\<lparr>outputs := [(''summary'', ''X'')]\<rparr>)"
  using unknown_phase_uses_fallback
    [of "''summary''" cfg0 answer_X "''Summary''" "GAP_AGENT cfg0" self0 w0]
  by (simp add: system_prompt_def GAP_AGENT_def answer_X_def self0_def)

text \<open>
  C3.  With \<open>GROQ_API_KEY\<close> unset, building the workflow raises \<open>RuntimeError\<close>, the
  script ends with that error and an unchanged world, so no request has been sent; the
  conference planner raises the same error before it starts a crew, sends a request
  or writes a file.
\<close>

theorem missing_key_no_call:
  assumes "GROQ_API_KEY cfg = None"
  shows "init cfg m = Inl (RuntimeError ''GROQ_API_KEY is not set in .env.'') \<and>
         autogen_main cfg ep argv w = (Inl (RuntimeError ''GROQ_API_KEY is not set in .env.''), w) \<and>
         fst (main cfg ko now theme w) = Inl (RuntimeError ''GROQ_API_KEY is not set in .env.'') \<and>
         calls (snd (main cfg ko now theme w)) = calls w \<and>
         kickoffs (snd (main cfg ko now theme w)) = kickoffs w \<and>
         files (snd (main cfg ko now theme w)) = files w"
  using assms by (simp add: init_def autogen_main_def main_def Let_def)

theorem missing_key_no_call_witness:
  "autogen_main cfg_nokey answer_X [''autogen_simple_demo.py''] w0 =
     (Inl (RuntimeError ''GROQ_API_KEY is not set in .env.''), w0) \<and>
   length (calls (snd (autogen_main cfg_nokey answer_X [''autogen_simple_demo.py''] w0))) = 0 \<and>
   kickoffs (snd (main cfg_nokey (\<lambda>c i. Inr ''agenda'') ''now'' ''AI in Education'' w0)) = []"
  using missing_key_no_call
    [of cfg_nokey "GROQ_MODEL cfg_nokey" answer_X "[''autogen_simple_demo.py'']" w0
        "\<lambda>c i. Inr ''agenda''" "''now''" "''AI in Education''"]
  by (simp add: cfg_nokey_def w0_def)

text \<open>
  C7.  A phase whose agent configuration has a role sends exactly one request: the
  model of the workflow, the temperature of the agent configuration, the token
  budget \<open>AGENT_MAX_TOKENS\<close>, and the two messages system then user.  The text the
  endpoint returns is stored in \<open>outputs\<close> under the phase name, and no other key
  changes.
\<close>

theorem one_request_per_phase:
  assumes "system_prompt ag = Inr sp"
  shows "calls (snd (run_phase cfg ep n d ag self w)) =
           calls w @
           [\<lparr>req_model = model self, req_temperature = temperature ag,
             req_max_tokens = AGENT_MAX_TOKENS cfg,
             req_messages =
               [\<lparr>msg_role = ''system'', msg_content = sp\<rparr>,
                \<lparr>msg_role = ''user'', msg_content = user_message n\<rparr>]\<rparr>] \<and>
         fst (run_phase cfg ep n d ag self w) =
           (case ep (calls w) (completion_request cfg self ag sp (user_message n)) of
              Inl e \<Rightarrow> Inl e
            | Inr c \<Rightarrow> Inr (self\<lparr>outputs := dict_set n c (outputs self)\<rparr>)) \<and>
         map_of (dict_set n c (outputs self)) k =
           (if k = n then Some c else map_of (outputs self) k)"
  using assms
  by (simp add: run_phase_calls run_phase_fst completion_request_def map_of_dict_set)

theorem one_request_per_phase_witness:
  "calls (snd (run_phase cfg0 answer_X ''gaps'' ''Analyze'' (GAP_AGENT cfg0) self0 w0)) =
     [\<lparr>req_model = ''llama-3.1-8b-instant'', req_temperature = Some (7 / 10),
       req_max_tokens = 2000,
       req_messages =
         [\<lparr>msg_role = ''system'',
           msg_content = projr (system_prompt (GAP_AGENT cfg0))\<rparr>,
          \<lparr>msg_role = ''user'', msg_content = user_message ''gaps''\<rparr>]\<rparr>] \<and>
   fst (run_phase cfg0 answer_X ''gaps'' ''Analyze'' (GAP_AGENT cfg0) self0 w0) =
     Inr (self0\<lparr>outputs := [(''gaps'', ''X'')]\<rparr>)"
  using one_request_per_phase
    [of "GAP_AGENT cfg0" "projr (system_prompt (GAP_AGENT cfg0))" cfg0 answer_X
        "''gaps''" "''Analyze''" self0 w0]
  by (simp add: system_prompt_def GAP_AGENT_def answer_X_def self0_def w0_def cfg0_def)

text \<open>
  C9.  The instruction is selected by equality of texts, letter case included:
  \<open>Literature\<close>, \<open>LITERATURE\<close>, \<open>Gaps\<close>, \<open>OUTLINE\<close> and \<open>Review\<close> select the fallback
  text, and an identifier selects the instruction of a recognised key exactly when
  it is that key.
\<close>

theorem instruction_lookup_case_sensitive:
  "user_message ''Literature'' = ''Summarize the context above in a helpful way.'' \<and>
   user_message ''LITERATURE'' = ''Summarize the context above in a helpful way.'' \<and>
   user_message ''Gaps'' = ''Summarize the context above in a helpful way.'' \<and>
   user_message ''OUTLINE'' = ''Summarize the context above in a helpful way.'' \<and>
   user_message ''Review'' = ''Summarize the context above in a helpful way.'' \<and>
   (user_message n = user_message ''literature'') = (n = ''literature'') \<and>
   (user_message n = user_message ''gaps'') = (n = ''gaps'') \<and>
   (user_message n = user_message ''outline'') = (n = ''outline'') \<and>
   (user_message n = user_message ''review'') = (n = ''review'')"
  by (simp add: user_message_def fallback_message_def)

text \<open>
  C10.  For an agent configuration without a \<open>temperature\<close> key the request carries
  the temperature \<open>None\<close>, not \<open>AGENT_TEMPERATURE_DEFAULT\<close>.
\<close>

theorem missing_temperature_sends_None:
  assumes "temperature ag = None" and "system_prompt ag = Inr sp"
  shows "map req_temperature (calls (snd (run_phase cfg ep n d ag self w))) =
           map req_temperature (calls w) @ [None] \<and>
         req_temperature (last (calls (snd (run_phase cfg ep n d ag self w)))) \<noteq>
           Some (AGENT_TEMPERATURE_DEFAULT cfg)"
  using assms by (simp add: run_phase_calls completion_request_def)

theorem missing_temperature_sends_None_witness:
  "map req_temperature
     (calls (snd (run_phase cfg0 answer_X ''literature'' ''Lit'' bare_agent self0 w0))) = [None]"
  using missing_temperature_sends_None
    [of bare_agent "projr (system_prompt bare_agent)" cfg0 answer_X
        "''literature''" "''Lit''" self0 w0]
  by (simp add: system_prompt_def bare_agent_def w0_def)

text \<open>
  C4.  When the phases before a phase have completed and the completion call of that
  phase raises, \<open>run\<close> ends with that exception, the call is the last request sent,
  and the files are as before the run: the report is written exactly when the loop
  over all phases has completed.
\<close>

theorem failed_phase_writes_no_report:
  assumes "WORKFLOW_PHASES cfg = pre @ p # post"
    and "for_phases cfg ep pre self w = (Inr self1, w1)"
    and "system_prompt (agent_config p) = Inr sp"
    and "ep (calls w1) (completion_request cfg self1 (agent_config p) sp (user_message (name p))) = Inl e"
  shows "fst (run cfg ep self w) = Inl e \<and>
         files (snd (run cfg ep self w)) = files w \<and>
         calls (snd (run cfg ep self w)) =
           calls w1 @ [completion_request cfg self1 (agent_config p) sp (user_message (name p))] \<and>
         files (snd (run cfg ep self w)) =
           (case fst (run cfg ep self w) of
              Inl e' \<Rightarrow> files w
            | Inr self' \<Rightarrow> (files w)(out_path \<mapsto> concat (report_writes self')))"
proof -
  let ?rp = "run_phase cfg ep (name p) (description p) (agent_config p) self1 w1"
  have rp: "fst ?rp = Inl e"
    by (simp add: run_phase_fst assms(3,4))
  have rc: "calls (snd ?rp) =
              calls w1 @ [completion_request cfg self1 (agent_config p) sp (user_message (name p))]"
    by (simp add: run_phase_calls assms(3))
  have loop: "for_phases cfg ep (pre @ p # post) self w = (Inl e, snd ?rp)"
    unfolding for_phases_append [of cfg ep pre "p # post"] assms(2) for_phases_Cons
    by (simp add: rp)
  have f: "fst (run cfg ep self w) = Inl e"
    by (simp add: run_fst assms(1) loop)
  have c: "calls (snd (run cfg ep self w)) = calls (snd ?rp)"
    by (simp add: run_calls assms(1) loop)
  show ?thesis
    using f c rc run_files [of cfg ep self w] by simp
qed

theorem failed_phase_writes_no_report_witness:
  "fst (run cfg0 fail_second self0 w0) = Inl (ClientError ''connection error'') \<and>
   files (snd (run cfg0 fail_second self0 w0)) out_path = None \<and>
   length (calls (snd (run cfg0 fail_second self0 w0))) = 2"
proof -
  let ?lit = "\<lparr>name = ''literature'', description = ''Literature review on the topic'',
               agent_config = LITERATURE_AGENT cfg0\<rparr>"
  let ?gap = "\<lparr>name = ''gaps'', description = ''Analyze research gaps and propose questions'',
               agent_config = GAP_AGENT cfg0\<rparr>"
  let ?rest = "[\<lparr>name = ''outline'', description = ''Design structured paper outline'',
                 agent_config = OUTLINE_AGENT cfg0\<rparr>,
                \<lparr>name = ''review'', description = ''Critically review and refine the outline'',
                 agent_config = REVIEW_AGENT cfg0\<rparr>]"
  let ?self1 = "self0\<lparr>outputs := [(''literature'', ''X'')]\<rparr>"
  let ?w1 = "snd (for_phases cfg0 fail_second [?lit] self0 w0)"
  let ?sp = "projr (system_prompt (GAP_AGENT cfg0))"
  have a1: "WORKFLOW_PHASES cfg0 = [?lit] @ ?gap # ?rest"
    by (simp add: WORKFLOW_PHASES_def)
  have "fst (for_phases cfg0 fail_second [?lit] self0 w0) = Inr ?self1"
    by (simp add: for_phases_Cons run_phase_fst system_prompt_def LITERATURE_AGENT_def
        fail_second_def w0_def self0_def)
  then have a2: "for_phases cfg0 fail_second [?lit] self0 w0 = (Inr ?self1, ?w1)"
    by (simp add: prod_eq_iff)
  have a3: "system_prompt (agent_config ?gap) = Inr ?sp"
    by (simp add: system_prompt_def GAP_AGENT_def)
  have c1: "length (calls ?w1) = 1"
    by (simp add: for_phases_Cons run_phase_fst run_phase_calls system_prompt_def
        LITERATURE_AGENT_def fail_second_def w0_def self0_def)
  have a4: "fail_second (calls ?w1)
              (completion_request cfg0 ?self1 (agent_config ?gap) ?sp (user_message (name ?gap))) =
            Inl (ClientError ''connection error'')"
    by (simp add: fail_second_def c1)
  show ?thesis
    using failed_phase_writes_no_report [OF a1 a2 a3 a4] c1 by (simp add: w0_def)
qed


lemma run_phase_Inr:
  assumes "fst (run_phase cfg ep n d ag self w) = Inr s"
  shows "\<exists>c. s = self\<lparr>outputs := dict_set n c (outputs self)\<rparr>"
  using assms unfolding run_phase_fst by (auto split: sum.splits)

lemma for_phases_completed:
  "fst (for_phases cfg ep ps self w) = Inr self' \<Longrightarrow> distinct (map name ps) \<Longrightarrow>
   set (map name ps) \<inter> set (map fst (outputs self)) = {} \<Longrightarrow>
     model self' = model self \<and> map fst (outputs self') = map fst (outputs self) @ map name ps"
proof (induction ps arbitrary: self w)
  case Nil
  then show ?case by simp
next
  case (Cons p ps)
  let ?rp = "run_phase cfg ep (name p) (description p) (agent_config p) self w"
  from Cons.prems(1) obtain s where s: "fst ?rp = Inr s"
    and rest: "fst (for_phases cfg ep ps s (snd ?rp)) = Inr self'"
    unfolding for_phases_Cons by (auto split: sum.splits)
  from run_phase_Inr [OF s] obtain c
    where sc: "s = self\<lparr>outputs := dict_set (name p) c (outputs self)\<rparr>" by blast
  have fresh: "name p \<notin> set (map fst (outputs self))"
    using Cons.prems(3) by auto
  have keys: "map fst (outputs s) = map fst (outputs self) @ [name p]"
    using fresh by (simp add: sc keys_dict_set)
  have d: "distinct (map name ps)" using Cons.prems(2) by simp
  have i: "set (map name ps) \<inter> set (map fst (outputs s)) = {}"
    using Cons.prems(2,3) by (auto simp: keys)
  have ms: "model s = model self" by (simp add: sc)
  from Cons.IH [OF rest d i]
  have "model self' = model s \<and> map fst (outputs self') = map fst (outputs s) @ map name ps" .
  then show ?case
    unfolding keys ms by simp
qed

lemma concat_report_sections:
  "concat (concat (map report_section d)) =
     concat (map (\<lambda>e. ''--- PHASE: '' @ fst e @ '' ---'' @ NL @ snd e @ NL @ NL) d)"
  by (induction d) (simp_all add: report_section_def)

text \<open>
  C6.  After a completed run of the script, whatever its command line, the report file
  holds the title line, a rule, the line \<open>Topic:\<close> with the constant \<open>TOPIC\<close>, the
  line \<open>Model:\<close> with the configured model, an empty line, and then for each stored
  output in order the line \<open>--- PHASE: name ---\<close>, the stored text and an empty line;
  the stored outputs are those of \<open>literature\<close>, \<open>gaps\<close>, \<open>outline\<close>, \<open>review\<close>, in
  this order.
\<close>

theorem report_contents:
  assumes "autogen_main cfg ep argv w = (Inr self', w')"
  shows "files w' out_path =
           Some (''AutoGen Exercise 4 - Research Paper Outline'' @ NL @
                 replicate 80 (CHR ''='') @ NL @
                 ''Topic: How multi-agent AI systems can support human decision-making'' @ NL @
                 ''Model: '' @ GROQ_MODEL cfg @ NL @ NL @
                 concat (map (\<lambda>e. ''--- PHASE: '' @ fst e @ '' ---'' @ NL @ snd e @ NL @ NL)
                           (outputs self'))) \<and>
         map fst (outputs self') = [''literature'', ''gaps'', ''outline'', ''review'']"
proof -
  from assms obtain self where i: "init cfg (GROQ_MODEL cfg) = Inr self"
    and r: "run cfg ep self w = (Inr self', w')"
    by (auto simp: autogen_main_def split: sum.splits)
  from i have m: "model self = GROQ_MODEL cfg" and o: "outputs self = []"
    by (auto simp: init_def split: option.splits if_splits)
  from r have f: "fst (for_phases cfg ep (WORKFLOW_PHASES cfg) self w) = Inr self'"
    using run_fst [of cfg ep self w] by simp
  have "model self' = model self \<and>
        map fst (outputs self') = map fst (outputs self) @ map name (WORKFLOW_PHASES cfg)"
    by (rule for_phases_completed [OF f]) (simp_all add: WORKFLOW_PHASES_def o)
  then have m': "model self' = GROQ_MODEL cfg"
    and k: "map fst (outputs self') = [''literature'', ''gaps'', ''outline'', ''review'']"
    by (simp_all add: m o WORKFLOW_PHASES_def)
  have "files w' = (files w)(out_path \<mapsto> concat (report_writes self'))"
    using run_files [of cfg ep self w] r by simp
  then have "files w' out_path = Some (concat (report_writes self'))" by simp
  then show ?thesis
    using k
    by (simp add: report_writes_def report_header_def concat_report_sections m' rule80_def
        TOPIC_def)
qed

theorem report_contents_witness:
  "files (snd (autogen_main cfg0 answer_X [''autogen_simple_demo.py''] w0)) out_path =
     Some (''AutoGen Exercise 4 - Research Paper Outline'' @ NL @
           replicate 80 (CHR ''='') @ NL @
           ''Topic: How multi-agent AI systems can support human decision-making'' @ NL @
           ''Model: llama-3.1-8b-instant'' @ NL @ NL @
           ''--- PHASE: literature ---'' @ NL @ ''X'' @ NL @ NL @
           ''--- PHASE: gaps ---'' @ NL @ ''X'' @ NL @ NL @
           ''--- PHASE: outline ---'' @ NL @ ''X'' @ NL @ NL @
           ''--- PHASE: review ---'' @ NL @ ''X'' @ NL @ NL)"
proof -
  let ?r = "autogen_main cfg0 answer_X [''autogen_simple_demo.py''] w0"
  let ?s = "self0\<lparr>outputs := [(''literature'', ''X''), (''gaps'', ''X''), (''outline'', ''X''),
                               (''review'', ''X'')]\<rparr>"
  have "init cfg0 (GROQ_MODEL cfg0) = Inr self0"
    by (simp add: init_def cfg0_def self0_def)
  then have "fst ?r = fst (run cfg0 answer_X self0 w0)"
    by (simp add: autogen_main_def)
  also have "\<dots> = Inr ?s"
    by (simp add: run_fst WORKFLOW_PHASES_def for_phases_Cons run_phase_fst system_prompt_def
        LITERATURE_AGENT_def GAP_AGENT_def OUTLINE_AGENT_def REVIEW_AGENT_def answer_X_def
        self0_def)
  finally have "?r = (Inr ?s, snd ?r)"
    by (simp add: prod_eq_iff)
  from report_contents [OF this] show ?thesis
    by (simp add: cfg0_def self0_def)
qed

subsection \<open>The context block\<close>

lemma join_snoc: "xs \<noteq> [] \<Longrightarrow> join sep (xs @ [x]) = join sep xs @ sep @ x"
  by (induction sep xs rule: join.induct) auto

lemma context_text_snoc:
  "context_text (d @ [e]) = (if d = [] then [] else context_text d @ NL) @ context_chunk e"
  by (simp add: context_text_def join_snoc)

lemma run_phase_console_context:
  assumes "VERBOSE cfg" and "system_prompt ag = Inr sp"
  shows "context_text (outputs self) \<in> set (console (snd (run_phase cfg ep n d ag self w)))"
  using assms by (simp add: run_phase_def Let_def split: sum.splits)

text \<open>
  C5.  The context block of no outputs is \<open>No prior context yet.\<close>; appending an entry
  to the outputs appends to the block, after a line break when the block has entries
  already, the header \<open>[NAME OUTPUT]\<close> with the phase name in upper case, a line
  break, the stored text and a line break.  When phase \<open>a\<close> has run from empty outputs
  and the endpoint has answered \<open>x\<close>, the block that the next phase renders, and
  prints when \<open>VERBOSE\<close> is set, is the header of \<open>a\<close> followed by \<open>x\<close>.
\<close>

theorem context_block_rendering:
  assumes "outputs self = []"
    and "system_prompt aga = Inr spa"
    and "ep (calls w) (completion_request cfg self aga spa (user_message a)) = Inr x"
    and "system_prompt agb = Inr spb"
    and "VERBOSE cfg"
  shows "context_text [] = ''No prior context yet.'' \<and>
         context_text (d @ [(n, c)]) =
           (if d = [] then [] else context_text d @ NL) @
           ''['' @ upper n @ '' OUTPUT]'' @ NL @ c @ NL \<and>
         fst (run_phase cfg ep a da aga self w) = Inr (self\<lparr>outputs := [(a, x)]\<rparr>) \<and>
         context_text [(a, x)] = ''['' @ upper a @ '' OUTPUT]'' @ NL @ x @ NL \<and>
         ''['' @ upper a @ '' OUTPUT]'' @ NL @ x @ NL
           \<in> set (console (snd (run_phase cfg ep b db agb (self\<lparr>outputs := [(a, x)]\<rparr>) v)))"
proof -
  have 1: "context_text [] = ''No prior context yet.''"
    by (simp add: context_text_def)
  have 2: "context_text (d @ [(n, c)]) =
           (if d = [] then [] else context_text d @ NL) @
           ''['' @ upper n @ '' OUTPUT]'' @ NL @ c @ NL"
    unfolding context_text_snoc by (simp add: context_chunk_def)
  have 3: "fst (run_phase cfg ep a da aga self w) = Inr (self\<lparr>outputs := [(a, x)]\<rparr>)"
    by (simp add: run_phase_fst assms(1,2,3))
  have 4: "context_text [(a, x)] = ''['' @ upper a @ '' OUTPUT]'' @ NL @ x @ NL"
    by (simp add: context_text_def context_chunk_def)
  have "context_text (outputs (self\<lparr>outputs := [(a, x)]\<rparr>))
          \<in> set (console (snd (run_phase cfg ep b db agb (self\<lparr>outputs := [(a, x)]\<rparr>) v)))"
    by (rule run_phase_console_context [OF assms(5,4)])
  then have 5: "''['' @ upper a @ '' OUTPUT]'' @ NL @ x @ NL
           \<in> set (console (snd (run_phase cfg ep b db agb (self\<lparr>outputs := [(a, x)]\<rparr>) v)))"
    by (simp add: 4)
  from 1 2 3 4 5 show ?thesis by blast
qed

lemma upper_literature: "upper ''literature'' = ''LITERATURE''"
  by code_simp

theorem context_block_rendering_witness:
  "context_text [(''literature'', ''X'')] = ''[LITERATURE OUTPUT]'' @ NL @ ''X'' @ NL \<and>
   ''[LITERATURE OUTPUT]'' @ NL @ ''X'' @ NL
     \<in> set (console (snd (run_phase cfg0 answer_X ''gaps''
              ''Analyze research gaps and propose questions'' (GAP_AGENT cfg0)
              (self0\<lparr>outputs := [(''literature'', ''X'')]\<rparr>) w0)))"
proof -
  have a1: "outputs self0 = []" by (simp add: self0_def)
  have a2: "system_prompt (LITERATURE_AGENT cfg0) = Inr (projr (system_prompt (LITERATURE_AGENT cfg0)))"
    by (simp add: system_prompt_def LITERATURE_AGENT_def)
  have a3: "answer_X (calls w0)
              (completion_request cfg0 self0 (LITERATURE_AGENT cfg0)
                 (projr (system_prompt (LITERATURE_AGENT cfg0))) (user_message ''literature'')) =
            Inr ''X''"
    by (simp add: answer_X_def)
  have a4: "system_prompt (GAP_AGENT cfg0) = Inr (projr (system_prompt (GAP_AGENT cfg0)))"
    by (simp add: system_prompt_def GAP_AGENT_def)
  have a5: "VERBOSE cfg0" by (simp add: cfg0_def)
  from context_block_rendering
    [where self = self0 and aga = "LITERATURE_AGENT cfg0" and ep = answer_X and w = w0
       and cfg = cfg0 and a = "''literature''" and x = "''X''" and agb = "GAP_AGENT cfg0"
       and b = "''gaps''" and db = "''Analyze research gaps and propose questions''"
       and v = w0, OF a1 a2 a3 a4 a5]
  show ?thesis
    by (simp add: upper_literature)
qed


subsection \<open>What the requests carry\<close>

text \<open>The run of the four configured phases against the endpoint that answers \<open>X\<close>.\<close>

lemma run_answer_X:
  "fst (run cfg0 answer_X self0 w0) =
     Inr (self0\<lparr>outputs := [(''literature'', ''X''), (''gaps'', ''X''), (''outline'', ''X''),
                               (''review'', ''X'')]\<rparr>)"
  by (simp add: run_fst WORKFLOW_PHASES_def for_phases_Cons run_phase_fst system_prompt_def
      LITERATURE_AGENT_def GAP_AGENT_def OUTLINE_AGENT_def REVIEW_AGENT_def answer_X_def
      self0_def)

lemma run_answer_X_calls:
  "map req_messages (calls (snd (run cfg0 answer_X self0 w0))) =
     map (\<lambda>p. [\<lparr>msg_role = ''system'', msg_content = projr (system_prompt (agent_config p))\<rparr>,
                \<lparr>msg_role = ''user'', msg_content = user_message (name p)\<rparr>])
       (WORKFLOW_PHASES cfg0)"
  by (simp add: run_calls WORKFLOW_PHASES_def for_phases_Cons run_phase_fst run_phase_calls
      system_prompt_def completion_request_def
      LITERATURE_AGENT_def GAP_AGENT_def OUTLINE_AGENT_def REVIEW_AGENT_def answer_X_def
      self0_def w0_def)

lemma gap_prompt_no_label:
  "\<not> sublist ''[LITERATURE OUTPUT]''
       (''You are a Research Gap Analyst.'' @ NL @ NL @
        ''You read the literature summary and identify gaps, tensions, and '' @
        ''promising research directions. You propose 2'' @ EN_DASH @ ''3 concrete research '' @
        ''questions or hypotheses that a new paper could address.'' @ NL @ NL @
        ''The paper topic is: '' @ APOS @
        ''How multi-agent AI systems can support human decision-making'' @ APOS @ ''.'')"
  by code_simp

lemma gap_instruction_no_label:
  "\<not> sublist ''[LITERATURE OUTPUT]''
       (''Based on the literature review, identify gaps or open problems. '' @
        ''Propose 2'' @ EN_DASH @ ''3 concrete research questions or hypotheses that a new paper could address.'')"
  by code_simp

text \<open>
  C1.  In the run against the endpoint that answers \<open>X\<close>, the literature phase has
  stored \<open>X\<close> when the gaps phase starts, and the context block rendered from it is
  \<open>[LITERATURE OUTPUT]\<close>, \<open>X\<close>.  The request of the gaps phase carries the system
  prompt of its agent and its instruction, and neither message holds the header of
  the literature output: the rendered block is printed, not sent.
\<close>

theorem prompt_lacks_prior_outputs:
  "fst (run cfg0 answer_X self0 w0) =
     Inr (self0\<lparr>outputs := [(''literature'', ''X''), (''gaps'', ''X''), (''outline'', ''X''),
                               (''review'', ''X'')]\<rparr>) \<and>
   context_text [(''literature'', ''X'')] = ''[LITERATURE OUTPUT]'' @ NL @ ''X'' @ NL \<and>
   req_messages (calls (snd (run cfg0 answer_X self0 w0)) ! 1) =
     [\<lparr>msg_role = ''system'',
       msg_content =
         ''You are a Research Gap Analyst.'' @ NL @ NL @
         ''You read the literature summary and identify gaps, tensions, and '' @
         ''promising research directions. You propose 2'' @ EN_DASH @ ''3 concrete research '' @
         ''questions or hypotheses that a new paper could address.'' @ NL @ NL @
         ''The paper topic is: '' @ APOS @
         ''How multi-agent AI systems can support human decision-making'' @ APOS @ ''.''\<rparr>,
      \<lparr>msg_role = ''user'',
       msg_content =
         ''Based on the literature review, identify gaps or open problems. '' @
         ''Propose 2'' @ EN_DASH @ ''3 concrete research questions or hypotheses that a new paper could address.''\<rparr>] \<and>
   \<not> sublist ''[LITERATURE OUTPUT]''
       (msg_content (req_messages (calls (snd (run cfg0 answer_X self0 w0)) ! 1) ! 0)) \<and>
   \<not> sublist ''[LITERATURE OUTPUT]''
       (msg_content (req_messages (calls (snd (run cfg0 answer_X self0 w0)) ! 1) ! 1))"
proof -
  let ?c = "calls (snd (run cfg0 answer_X self0 w0))"
  have "map req_messages ?c ! 1 =
     [\<lparr>msg_role = ''system'', msg_content = projr (system_prompt (GAP_AGENT cfg0))\<rparr>,
      \<lparr>msg_role = ''user'', msg_content = user_message ''gaps''\<rparr>]"
    unfolding run_answer_X_calls by (simp add: WORKFLOW_PHASES_def)
  moreover have "length (map req_messages ?c) = 4"
    unfolding run_answer_X_calls by (simp add: WORKFLOW_PHASES_def)
  ultimately have m: "req_messages (?c ! 1) =
     [\<lparr>msg_role = ''system'', msg_content = projr (system_prompt (GAP_AGENT cfg0))\<rparr>,
      \<lparr>msg_role = ''user'', msg_content = user_message ''gaps''\<rparr>]"
    by simp
  have sp: "projr (system_prompt (GAP_AGENT cfg0)) =
         ''You are a Research Gap Analyst.'' @ NL @ NL @
         ''You read the literature summary and identify gaps, tensions, and '' @
         ''promising research directions. You propose 2'' @ EN_DASH @ ''3 concrete research '' @
         ''questions or hypotheses that a new paper could address.'' @ NL @ NL @
         ''The paper topic is: '' @ APOS @
         ''How multi-agent AI systems can support human decision-making'' @ APOS @ ''.''"
    by (simp add: system_prompt_def GAP_AGENT_def TOPIC_def)
  have um: "user_message ''gaps'' =
         ''Based on the literature review, identify gaps or open problems. '' @
         ''Propose 2'' @ EN_DASH @ ''3 concrete research questions or hypotheses that a new paper could address.''"
    by (simp add: user_message_def)
  note m' = m [unfolded sp um]
  have ctx: "context_text [(''literature'', ''X'')] = ''[LITERATURE OUTPUT]'' @ NL @ ''X'' @ NL"
    by (simp add: context_text_def context_chunk_def upper_literature)
  have n0: "\<not> sublist ''[LITERATURE OUTPUT]'' (msg_content (req_messages (?c ! 1) ! 0))"
    unfolding m' using gap_prompt_no_label by simp
  have n1: "\<not> sublist ''[LITERATURE OUTPUT]'' (msg_content (req_messages (?c ! 1) ! 1))"
    unfolding m' using gap_instruction_no_label by simp
  show ?thesis
    by (rule conjI [OF run_answer_X conjI [OF ctx conjI [OF m' conjI [OF n0 n1]]]])
qed


subsection \<open>The topic and the command line\<close>





subsection \<open>The topic in the report\<close>

text \<open>The report of the script run against the endpoint that answers \<open>X\<close>, for any command line.\<close>

lemma report_answer_X:
  "files (snd (autogen_main cfg0 answer_X argv w0)) out_path =
     Some (''AutoGen Exercise 4 - Research Paper Outline'' @ NL @
           replicate 80 (CHR ''='') @ NL @
           ''Topic: How multi-agent AI systems can support human decision-making'' @ NL @
           ''Model: llama-3.1-8b-instant'' @ NL @ NL @
           ''--- PHASE: literature ---'' @ NL @ ''X'' @ NL @ NL @
           ''--- PHASE: gaps ---'' @ NL @ ''X'' @ NL @ NL @
           ''--- PHASE: outline ---'' @ NL @ ''X'' @ NL @ NL @
           ''--- PHASE: review ---'' @ NL @ ''X'' @ NL @ NL)"
proof -
  have "init cfg0 (GROQ_MODEL cfg0) = Inr self0"
    by (simp add: init_def cfg0_def self0_def)
  then have e: "autogen_main cfg0 answer_X argv w0 = run cfg0 answer_X self0 w0"
    by (simp add: autogen_main_def)
  have "files (snd (run cfg0 answer_X self0 w0)) out_path =
        Some (concat (report_writes
          (self0\<lparr>outputs := [(''literature'', ''X''), (''gaps'', ''X''), (''outline'', ''X''),
                               (''review'', ''X'')]\<rparr>)))"
    by (simp add: run_files run_answer_X)
  then show ?thesis
    unfolding e
    by (simp add: report_writes_def report_header_def report_section_def rule80_def TOPIC_def
        self0_def)
qed

lemma report_text_no_Robotics:
  "\<not> sublist ''Robotics''
       (''AutoGen Exercise 4 - Research Paper Outline'' @ NL @
        replicate 80 (CHR ''='') @ NL @
        ''Topic: How multi-agent AI systems can support human decision-making'' @ NL @
        ''Model: llama-3.1-8b-instant'' @ NL @ NL @
        ''--- PHASE: literature ---'' @ NL @ ''X'' @ NL @ NL @
        ''--- PHASE: gaps ---'' @ NL @ ''X'' @ NL @ NL @
        ''--- PHASE: outline ---'' @ NL @ ''X'' @ NL @ NL @
        ''--- PHASE: review ---'' @ NL @ ''X'' @ NL @ NL)"
  by code_simp

text \<open>
  The header does not hold a topic given at invocation: started with the argument
  \<open>Robotics\<close>, the script completes and its report does not hold \<open>Robotics\<close>
  anywhere.
\<close>

theorem report_lacks_supplied_topic:
  "fst (autogen_main cfg0 answer_X [''autogen_simple_demo.py'', ''Robotics''] w0) =
     Inr (self0\<lparr>outputs := [(''literature'', ''X''), (''gaps'', ''X''), (''outline'', ''X''),
                               (''review'', ''X'')]\<rparr>) \<and>
   \<not> sublist ''Robotics''
       (the (files (snd (autogen_main cfg0 answer_X
                           [''autogen_simple_demo.py'', ''Robotics''] w0)) out_path))"
proof -
  have "init cfg0 (GROQ_MODEL cfg0) = Inr self0"
    by (simp add: init_def cfg0_def self0_def)
  then have "autogen_main cfg0 answer_X [''autogen_simple_demo.py'', ''Robotics''] w0 =
             run cfg0 answer_X self0 w0"
    by (simp add: autogen_main_def)
  then have c: "fst (autogen_main cfg0 answer_X [''autogen_simple_demo.py'', ''Robotics''] w0) =
     Inr (self0\<lparr>outputs := [(''literature'', ''X''), (''gaps'', ''X''), (''outline'', ''X''),
                               (''review'', ''X'')]\<rparr>)"
    by (simp add: run_answer_X)
  have n: "\<not> sublist ''Robotics''
       (the (files (snd (autogen_main cfg0 answer_X
                           [''autogen_simple_demo.py'', ''Robotics''] w0)) out_path))"
    unfolding report_answer_X option.sel by (rule report_text_no_Robotics)
  show ?thesis by (rule conjI [OF c n])
qed

end
